theory Spec2Isabelle
  imports Main
begin

section \<open>The user form of \<open>components/UserForm.tsx\<close>\<close>

text \<open>
  The component keeps four pieces of React state (\<open>clientValidation\<close>, \<open>isPending\<close>,
  \<open>submissionTime\<close>, \<open>serverError\<close>) and a react-hook-form object. A submission builds a
  \<open>FormData\<close> from the form's data, calls the server action \<open>submitUserData\<close> and maps the
  reply onto the form. The model passes the state explicitly, cuts \<open>onSubmit\<close> at its
  \<open>await\<close> into the part that runs at once and the part that runs when the action has
  settled, and turns every \<open>throw\<close> into a value.
\<close>

subsection \<open>Field values and the form's data\<close>

text \<open>
  The numbers of the model are JavaScript's safe integers, the whole numbers up to
  \<open>2^53 - 1\<close> in size: each of them is a number of JavaScript, and
  \<open>Number.prototype.toString\<close> prints it in plain decimal. Fractions, \<open>NaN\<close>, the
  infinities and larger magnitudes are outside the model.
\<close>

typedef safe_integer = "{i :: int. - 9007199254740991 \<le> i \<and> i \<le> 9007199254740991}"
  morphisms int_of safe
  by (rule exI [of _ 0]) simp

text \<open>
  What a field of the data can hold at run time: the test of \<open>onSubmit\<close> names \<open>null\<close>,
  \<open>undefined\<close> and strings, and the age is a number.
\<close>

datatype field_value = Null | Undefined | Str string | Num safe_integer

record UserFormData =
  name :: field_value
  email :: field_value
  age :: field_value
  bio :: field_value

text \<open>\<open>Object.entries(data)\<close>: the fields in the order of the object's keys.\<close>

definition entries :: "UserFormData \<Rightarrow> (string \<times> field_value) list" where
  "entries d = [(''name'', name d), (''email'', email d), (''age'', age d), (''bio'', bio d)]"

text \<open>\<open>defaultValues\<close> of \<open>useForm\<close>.\<close>

definition defaultValues :: UserFormData where
  "defaultValues =
     \<lparr>name = Str '''', email = Str ''jdoe@acme.com'', age = Num (safe 25),
      bio = Str ''I'm an American''\<rparr>"

subsection \<open>String conversion\<close>

definition digit_char :: "nat \<Rightarrow> char" where
  "digit_char d = ''0123456789'' ! (d mod 10)"

fun digits :: "nat \<Rightarrow> string" where
  "digits n = (if n < 10 then [digit_char n] else digits (n div 10) @ [digit_char (n mod 10)])"

declare digits.simps [simp del]

definition decimal :: "safe_integer \<Rightarrow> string" where
  "decimal n =
     (if int_of n < 0 then ''-'' @ digits (nat (- int_of n)) else digits (nat (int_of n)))"

text \<open>
  A thrown value: \<open>null\<close>, \<open>undefined\<close>, or any other value, kept as the text its
  \<open>toString()\<close> gives, which is all the \<open>catch\<close> block reads. The text of a
  \<open>TypeError\<close> is the engine's; the model has V8's.
\<close>

datatype thrown = ThrownNull | ThrownUndefined | Thrown string

text \<open>
  \<open>error.toString()\<close>, line 64: on \<open>null\<close> and \<open>undefined\<close> the call itself throws, which
  is \<open>None\<close>.
\<close>

fun thrownText :: "thrown \<Rightarrow> string option" where
  "thrownText (Thrown s) = Some s"
| "thrownText ThrownNull = None"
| "thrownText ThrownUndefined = None"

text \<open>
  \<open>value.toString()\<close>: a string is itself, a whole number is printed in decimal, and
  on \<open>null\<close> and \<open>undefined\<close> the call throws a \<open>TypeError\<close>.
\<close>

fun toString :: "field_value \<Rightarrow> thrown + string" where
  "toString (Str s) = Inr s"
| "toString (Num n) = Inr (decimal n)"
| "toString Null =
     Inl (Thrown ''TypeError: Cannot read properties of null (reading 'toString')'')"
| "toString Undefined =
     Inl (Thrown ''TypeError: Cannot read properties of undefined (reading 'toString')'')"

subsection \<open>Building the FormData\<close>

text \<open>A \<open>FormData\<close> is the list of its entries, in the order they were appended.\<close>

type_synonym formData = "(string \<times> string) list"

text \<open>
  The body of the \<open>forEach\<close> callback, lines 40 to 44: the entry is appended when the
  value is none of \<open>null\<close>, \<open>undefined\<close> and the empty string.
\<close>

definition append_entry :: "string \<times> field_value \<Rightarrow> formData \<Rightarrow> thrown + formData" where
  "append_entry kv fd =
     (case kv of (key, v) \<Rightarrow>
        if v \<noteq> Null \<and> v \<noteq> Undefined \<and> v \<noteq> Str '''' then
          (case toString v of Inl err \<Rightarrow> Inl err | Inr s \<Rightarrow> Inr (fd @ [(key, s)]))
        else Inr fd)"

text \<open>The \<open>forEach\<close> loop: a throw in one round ends the loop.\<close>

fun append_entries :: "(string \<times> field_value) list \<Rightarrow> formData \<Rightarrow> thrown + formData" where
  "append_entries [] fd = Inr fd"
| "append_entries (kv # kvs) fd =
     (case append_entry kv fd of Inl err \<Rightarrow> Inl err | Inr fd' \<Rightarrow> append_entries kvs fd')"

definition build_formData :: "UserFormData \<Rightarrow> thrown + formData" where
  "build_formData d = append_entries (entries d) []"

text \<open>
  The same FormData in the words of the specification: the fields whose value is
  \<open>null\<close>, \<open>undefined\<close> or the empty string are left out, every other field is there with
  the string conversion of its value.
\<close>

definition omitted :: "field_value \<Rightarrow> bool" where
  "omitted v = (v = Null \<or> v = Undefined \<or> v = Str '''')"

fun string_of :: "field_value \<Rightarrow> string" where
  "string_of (Str s) = s"
| "string_of (Num n) = decimal n"
| "string_of Null = ''null''"
| "string_of Undefined = ''undefined''"

definition formData_spec :: "UserFormData \<Rightarrow> formData" where
  "formData_spec d =
     map (\<lambda>kv. (fst kv, string_of (snd kv))) (filter (\<lambda>kv. \<not> omitted (snd kv)) (entries d))"

subsection \<open>The server action's reply\<close>

text \<open>
  Modelled from the spec: \<open>lib/types\<close> is not among the sources. The error record is
  one of four tagged shapes: validation errors by field, and a message for a database,
  a permission and an unknown error.
\<close>

datatype server_error =
    ZodValidationError "(string \<times> string) list"
  | DatabaseError string
  | PermissionError string
  | UnknownError string


text \<open>
  What \<open>result.error\<close> holds when \<open>onSubmit\<close> inspects it. TypeScript's types are gone at
  run time, so it is a value of one of the four shapes, or a value that passes for a
  validation error but whose \<open>errors\<close> is \<open>undefined\<close> or \<open>null\<close>, or some other value,
  which the chain of guards of lines 51 to 61 passes by.
\<close>

datatype error_value = Shaped server_error | ValidationWithoutErrors | Unshaped

text \<open>
  What the awaited call resolves with: a result whose \<open>success\<close> is truthy, a result
  whose \<open>success\<close> is not, with its \<open>error\<close>, or \<open>undefined\<close> or \<open>null\<close> in place of a
  result.
\<close>

datatype action_result = Success | Failure error_value | NoResult

text \<open>The awaited call of line 45 resolves with a result or rejects with a thrown value.\<close>

datatype action_outcome = Resolved action_result | Rejected thrown


text \<open>
  Modelled from the spec: the guards of \<open>ErrorTypeGuards\<close> (\<open>lib/types\<close>, not among the
  sources), each accepting the values that carry the tag of its own shape. The guard of
  the validation errors goes by the tag, so it also accepts the tagged value that has no
  map of errors.
\<close>

fun isZodValidationError :: "error_value \<Rightarrow> bool" where
  "isZodValidationError (Shaped (ZodValidationError es)) = True"
| "isZodValidationError ValidationWithoutErrors = True"
| "isZodValidationError e = False"

fun isDatabaseError :: "error_value \<Rightarrow> bool" where
  "isDatabaseError (Shaped (DatabaseError m)) = True"
| "isDatabaseError e = False"

fun isPermissionError :: "error_value \<Rightarrow> bool" where
  "isPermissionError (Shaped (PermissionError m)) = True"
| "isPermissionError e = False"

fun isUnknownError :: "error_value \<Rightarrow> bool" where
  "isUnknownError (Shaped (UnknownError m)) = True"
| "isUnknownError e = False"

text \<open>
  Modelled from the spec: the properties \<open>errors\<close> and \<open>message\<close> of the four shapes,
  as \<open>result.error.errors\<close> and \<open>result.error.message\<close> read them. A value that has no
  such property gives \<open>undefined\<close>, which is \<open>None\<close>.
\<close>

fun error_errors :: "error_value \<Rightarrow> (string \<times> string) list option" where
  "error_errors (Shaped (ZodValidationError es)) = Some es"
| "error_errors e = None"

fun error_message :: "error_value \<Rightarrow> string option" where
  "error_message (Shaped (DatabaseError m)) = Some m"
| "error_message (Shaped (PermissionError m)) = Some m"
| "error_message (Shaped (UnknownError m)) = Some m"
| "error_message e = None"

text \<open>How many of the four guards accept a value.\<close>

definition guards_accepting :: "error_value \<Rightarrow> nat" where
  "guards_accepting e =
     length (filter (\<lambda>g. g e)
       [isZodValidationError, isDatabaseError, isPermissionError, isUnknownError])"

subsection \<open>The form object\<close>

text \<open>
  The part of react-hook-form's form state the component relies on: the current values
  and the error of each field, an error being its type and its message.
\<close>

record field_error =
  etype :: string
  emessage :: string

record form_state =
  fvalues :: UserFormData
  ferrors :: "string \<rightharpoonup> field_error"

text \<open>\<open>form.setError(key, error)\<close> and \<open>form.reset()\<close>.\<close>

definition setError :: "string \<Rightarrow> field_error \<Rightarrow> form_state \<Rightarrow> form_state" where
  "setError key err f = f\<lparr>ferrors := (ferrors f)(key \<mapsto> err)\<rparr>"

definition reset :: "form_state \<Rightarrow> form_state" where
  "reset f = \<lparr>fvalues = defaultValues, ferrors = Map.empty\<rparr>"

text \<open>The \<open>forEach\<close> of lines 52 to 54 over the entries of the error map.\<close>

fun setErrors :: "(string \<times> string) list \<Rightarrow> form_state \<Rightarrow> form_state" where
  "setErrors [] f = f"
| "setErrors ((key, v) # es) f =
     setErrors es (setError key \<lparr>etype = ''server'', emessage = v\<rparr> f)"

subsection \<open>The component's state\<close>

text \<open>
  The four state variables and the form, with two fields that only observe: \<open>sent\<close>
  lists the FormData of every call of the server action so far, and \<open>inFlight\<close> counts
  the calls that have not settled yet.
\<close>

record ui_state =
  clientValidation :: bool
  isPending :: bool
  submissionTime :: "string option"
  serverError :: "string option"
  form :: form_state
  sent :: "formData list"
  inFlight :: nat

definition initial :: ui_state where
  "initial =
     \<lparr>clientValidation = False, isPending = False, submissionTime = None,
      serverError = None, form = \<lparr>fvalues = defaultValues, ferrors = Map.empty\<rparr>,
      sent = [], inFlight = 0\<rparr>"

subsection \<open>What is rendered\<close>

text \<open>
  \<open>{serverError && ...}\<close> and \<open>{submissionTime && ...}\<close>, lines 142 to 153: the alert is
  there when the state is truthy, and the empty string is not.
\<close>

definition truthy :: "string option \<Rightarrow> string option" where
  "truthy x = (case x of None \<Rightarrow> None | Some s \<Rightarrow> if s = '''' then None else Some s)"

definition errorBanner :: "ui_state \<Rightarrow> string option" where
  "errorBanner st = truthy (serverError st)"

definition successBanner :: "ui_state \<Rightarrow> string option" where
  "successBanner st = truthy (submissionTime st)"

text \<open>The submit button, lines 137 to 139.\<close>

definition submitDisabled :: "ui_state \<Rightarrow> bool" where
  "submitDisabled st = isPending st"

definition submitLabel :: "ui_state \<Rightarrow> string" where
  "submitLabel st = (if isPending st then ''Submitting...'' else ''Submit'')"

subsection \<open>onSubmit\<close>

definition genericMessage :: string where
  "genericMessage = ''An unexpected error occurred. Please try again.''"

text \<open>
  The \<open>catch\<close> block, line 64. When \<open>error.toString()\<close> throws, \<open>setServerError\<close> is
  not called and the callback ends with the state as it is.
\<close>

definition catchError :: "thrown \<Rightarrow> ui_state \<Rightarrow> ui_state" where
  "catchError err st =
     (case thrownText err of
        None \<Rightarrow> st
      | Some s \<Rightarrow> st\<lparr>serverError := Some (genericMessage @ '' '' @ s)\<rparr>)"

text \<open>
  \<open>useTransition\<close>, line 19, by React's contract for an asynchronous callback:
  \<open>isPending\<close> is up from the call of \<open>startTransition\<close> until the callback has ended.
  At the end of the callback the call is no longer in flight, and \<open>isPending\<close> stays up
  only while another transition runs.
\<close>

definition endTransition :: "ui_state \<Rightarrow> ui_state" where
  "endTransition st = st\<lparr>inFlight := inFlight st - 1, isPending := (1 < inFlight st)\<rparr>"

text \<open>
  Lines 34 to 45, up to the \<open>await\<close>: both messages are cleared, the transition starts,
  the FormData is built and the action is called with it. A throw while the FormData is
  built goes to the \<open>catch\<close> block and the callback ends without a call.
\<close>

definition onSubmit_begin :: "UserFormData \<Rightarrow> ui_state \<Rightarrow> ui_state" where
  "onSubmit_begin d st =
     (let st1 = st\<lparr>serverError := None, submissionTime := None, isPending := True,
                   inFlight := inFlight st + 1\<rparr>
      in case build_formData d of
           Inl err \<Rightarrow> endTransition (catchError err st1)
         | Inr fd \<Rightarrow> st1\<lparr>sent := sent st1 @ [fd]\<rparr>)"

text \<open>
  Lines 47 to 62, inside the \<open>try\<close>: \<open>now\<close> is \<open>new Date().toISOString()\<close>. Reading
  \<open>result.success\<close> throws when there is no result, \<open>Object.entries\<close> throws on
  \<open>undefined\<close> and \<open>null\<close>, and \<open>setServerError(undefined)\<close> leaves no message. Each of
  these throws comes before the first update of the state, so a throw (\<open>Inl\<close>) leaves the
  state as it was.
\<close>

definition handleResult :: "string \<Rightarrow> action_result \<Rightarrow> ui_state \<Rightarrow> thrown + ui_state" where
  "handleResult now result st =
     (case result of
        NoResult \<Rightarrow>
          Inl (Thrown ''TypeError: Cannot read properties of undefined (reading 'success')'')
      | Success \<Rightarrow> Inr (st\<lparr>submissionTime := Some now, form := reset (form st)\<rparr>)
      | Failure e \<Rightarrow>
          if isZodValidationError e then
            (case error_errors e of
               None \<Rightarrow> Inl (Thrown ''TypeError: Cannot convert undefined or null to object'')
             | Some es \<Rightarrow> Inr (st\<lparr>form := setErrors es (form st)\<rparr>))
          else if isDatabaseError e \<or> isPermissionError e \<or> isUnknownError e then
            Inr (st\<lparr>serverError := error_message e\<rparr>)
          else Inr st)"

text \<open>
  The \<open>try\<close> block from the \<open>await\<close> of line 45 on: the awaited call rejects, or it
  resolves and the result is handled.
\<close>

definition afterAwait :: "string \<Rightarrow> action_outcome \<Rightarrow> ui_state \<Rightarrow> thrown + ui_state" where
  "afterAwait now outcome st =
     (case outcome of
        Rejected err \<Rightarrow> Inl err
      | Resolved result \<Rightarrow> handleResult now result st)"

text \<open>What runs when the call has settled: the rest of the \<open>try\<close>, or the \<open>catch\<close>.\<close>

definition onSubmit_settle :: "string \<Rightarrow> action_outcome \<Rightarrow> ui_state \<Rightarrow> ui_state" where
  "onSubmit_settle now outcome st =
     endTransition
       (case afterAwait now outcome st of
          Inl err \<Rightarrow> catchError err st
        | Inr st' \<Rightarrow> st')"

text \<open>One whole submission: \<open>onSubmit\<close> is called with the data and its action settles.\<close>

definition onSubmit :: "string \<Rightarrow> action_outcome \<Rightarrow> UserFormData \<Rightarrow> ui_state \<Rightarrow> ui_state" where
  "onSubmit now outcome d st = onSubmit_settle now outcome (onSubmit_begin d st)"

subsection \<open>handleSubmit and the resolver\<close>

text \<open>
  \<open>lib/schema\<close> is not among the sources, so the schema is a parameter: what
  \<open>zodResolver(userSchema)\<close> makes of the form's values, either the errors by field
  (\<open>Inl\<close>) or the parsed data (\<open>Inr\<close>).
\<close>

type_synonym schema = "UserFormData \<Rightarrow> (string \<times> field_error) list + UserFormData"

text \<open>Line 24: the resolver the form is given.\<close>

definition resolver :: "schema \<Rightarrow> ui_state \<Rightarrow> schema option" where
  "resolver userSchema st = (if clientValidation st then Some userSchema else None)"

text \<open>The fields the form registers, lines 77 to 128.\<close>

definition registered :: "string set" where
  "registered = {''name'', ''email'', ''age'', ''bio''}"

text \<open>The values a failed resolver hands over: an object with no field.\<close>

definition noValues :: UserFormData where
  "noValues = \<lparr>name = Undefined, email = Undefined, age = Undefined, bio = Undefined\<rparr>"

text \<open>
  The validation step of react-hook-form's \<open>handleSubmit\<close>: the errors of the form
  after it, and the data for the callback. With a resolver the resolver's errors replace
  the form's errors. With none the rules registered on the fields are checked; this form
  registers no rule, so every registered field passes and its error is unset, and an
  error on any other name stays.
\<close>

definition validate :: "schema \<Rightarrow> ui_state \<Rightarrow> (string \<rightharpoonup> field_error) \<times> UserFormData" where
  "validate userSchema st =
     (case resolver userSchema st of
        None \<Rightarrow> (ferrors (form st) |` (- registered), fvalues (form st))
      | Some r \<Rightarrow>
          (case r (fvalues (form st)) of
             Inl errs \<Rightarrow> (map_of errs, noValues)
           | Inr d \<Rightarrow> (Map.empty, d)))"

text \<open>
  \<open>form.handleSubmit(onSubmit)\<close>, line 76, as react-hook-form runs it: after the
  validation step the error named \<open>root\<close> is unset, and the callback is called with the
  data only when no error is left.
\<close>

definition handleSubmit :: "schema \<Rightarrow> ui_state \<Rightarrow> ui_state" where
  "handleSubmit userSchema st =
     (case validate userSchema st of
        (errs, d) \<Rightarrow>
          if errs(''root'' := None) = Map.empty then
            onSubmit_begin d (st\<lparr>form := (form st)\<lparr>ferrors := Map.empty\<rparr>\<rparr>)
          else st\<lparr>form := (form st)\<lparr>ferrors := errs(''root'' := None)\<rparr>\<rparr>)"

text \<open>
  A schema for the examples below, which asks for a name and nothing else. It stands
  in for the form's own schema only where a concrete one is needed.
\<close>

definition nameRequired :: schema where
  "nameRequired d =
     (if omitted (name d) then
        Inl [(''name'', \<lparr>etype = ''too_small'', emessage = ''Name is required''\<rparr>)]
      else Inr d)"

subsection \<open>The form as a transition system\<close>

text \<open>
  What can happen to the mounted component: the switch is set, the user changes the
  fields (the event carries the form state react-hook-form ends in), a submit is asked
  for, and a call in flight settles. A disabled submit button raises no submit event,
  and there is nothing to settle when no call is in flight.
\<close>

datatype event =
    SetClientValidation bool
  | Change form_state
  | Submit
  | Settle string action_outcome

fun step :: "schema \<Rightarrow> event \<Rightarrow> ui_state \<Rightarrow> ui_state" where
  "step userSchema (SetClientValidation b) st = st\<lparr>clientValidation := b\<rparr>"
| "step userSchema (Change f) st = st\<lparr>form := f\<rparr>"
| "step userSchema Submit st =
     (if submitDisabled st then st else handleSubmit userSchema st)"
| "step userSchema (Settle now outcome) st =
     (if inFlight st = 0 then st else onSubmit_settle now outcome st)"

fun run :: "schema \<Rightarrow> event list \<Rightarrow> ui_state \<Rightarrow> ui_state" where
  "run userSchema [] st = st"
| "run userSchema (ev # evs) st = run userSchema evs (step userSchema ev st)"

inductive reachable :: "schema \<Rightarrow> ui_state \<Rightarrow> bool" for userSchema :: schema where
  reachable_initial: "reachable userSchema initial"
| reachable_step:
    "reachable userSchema st \<Longrightarrow> reachable userSchema (step userSchema ev st)"

section \<open>Properties\<close>

subsection \<open>The FormData\<close>

lemma int_of_safe:
  "- 9007199254740991 \<le> i \<Longrightarrow> i \<le> 9007199254740991 \<Longrightarrow> int_of (safe i) = i"
  by (simp add: safe_inverse)

lemma append_entry_spec:
  "append_entry kv fd =
     Inr (if omitted (snd kv) then fd else fd @ [(fst kv, string_of (snd kv))])"
  by (cases kv; cases "snd kv") (auto simp: append_entry_def omitted_def)

lemma append_entries_spec:
  "append_entries kvs fd =
     Inr (fd @ map (\<lambda>kv. (fst kv, string_of (snd kv)))
                (filter (\<lambda>kv. \<not> omitted (snd kv)) kvs))"
  by (induction kvs arbitrary: fd) (simp_all add: append_entry_spec)

lemma build_formData_spec: "build_formData d = Inr (formData_spec d)"
  by (simp add: build_formData_def formData_spec_def append_entries_spec)

lemma toString_string_of: "\<not> omitted v \<Longrightarrow> toString v = Inr (string_of v)"
  by (cases v) (simp_all add: omitted_def)

lemma distinct_keys: "distinct (map fst (entries d))"
  by (simp add: entries_def)

lemma filter_key_spec:
  "distinct (map fst kvs) \<Longrightarrow> (k, v) \<in> set kvs \<Longrightarrow>
   filter (\<lambda>e. fst e = k)
     (map (\<lambda>kv. (fst kv, string_of (snd kv))) (filter (\<lambda>kv. \<not> omitted (snd kv)) kvs))
   = (if omitted v then [] else [(k, string_of v)])"
proof (induction kvs)
  case Nil
  then show ?case by simp
next
  case (Cons a kvs)
  show ?case
  proof (cases "a = (k, v)")
    case True
    with Cons.prems have "k \<notin> fst ` set kvs" by auto
    then have "filter (\<lambda>e. fst e = k)
        (map (\<lambda>kv. (fst kv, string_of (snd kv))) (filter (\<lambda>kv. \<not> omitted (snd kv)) kvs)) = []"
      by (force simp: filter_empty_conv)
    with True show ?thesis by simp
  next
    case False
    with Cons.prems have in_rest: "(k, v) \<in> set kvs" and d: "distinct (map fst kvs)"
      and "fst a \<notin> fst ` set kvs" by auto
    then have "fst a \<noteq> k" by (metis fst_conv image_eqI)
    with Cons.IH [OF d in_rest] show ?thesis by simp
  qed
qed

text \<open>
  Claim C8. For every submission, a field whose value is \<open>null\<close>, \<open>undefined\<close> or
  the empty string gets no entry in the FormData sent to the server action, and every
  other field gets exactly one entry, the string conversion of its value. Building the
  FormData never throws.
\<close>

theorem formData_omits_empty_fields:
  "build_formData d = Inr (formData_spec d) \<and>
   (\<forall>(k, v) \<in> set (entries d).
      if v = Null \<or> v = Undefined \<or> v = Str ''''
      then k \<notin> fst ` set (formData_spec d)
      else \<exists>s. toString v = Inr s \<and> filter (\<lambda>e. fst e = k) (formData_spec d) = [(k, s)])"
proof -
  have main: "if omitted v then k \<notin> fst ` set (formData_spec d)
        else \<exists>s. toString v = Inr s \<and> filter (\<lambda>e. fst e = k) (formData_spec d) = [(k, s)]"
    if kv: "(k, v) \<in> set (entries d)" for k v
  proof -
    have f: "filter (\<lambda>e. fst e = k) (formData_spec d) = (if omitted v then [] else [(k, string_of v)])"
      unfolding formData_spec_def by (rule filter_key_spec [OF distinct_keys kv])
    show ?thesis
    proof (cases "omitted v")
      case True
      with f have "filter (\<lambda>e. fst e = k) (formData_spec d) = []" by simp
      then have "k \<notin> fst ` set (formData_spec d)" by (auto simp: filter_empty_conv)
      with True show ?thesis by simp
    next
      case False
      with f toString_string_of [OF False] show ?thesis by simp
    qed
  qed
  show ?thesis
  proof (intro conjI ballI)
    show "build_formData d = Inr (formData_spec d)" by (rule build_formData_spec)
  next
    fix kv assume "kv \<in> set (entries d)"
    then have "(fst kv, snd kv) \<in> set (entries d)" by simp
    from main [OF this]
    show "case kv of (k, v) \<Rightarrow>
      if v = Null \<or> v = Undefined \<or> v = Str ''''
      then k \<notin> fst ` set (formData_spec d)
      else \<exists>s. toString v = Inr s \<and> filter (\<lambda>e. fst e = k) (formData_spec d) = [(k, s)]"
      by (simp add: split_def omitted_def)
  qed
qed

theorem formData_omits_empty_fields_witness:
  "build_formData defaultValues =
     Inr [(''email'', ''jdoe@acme.com''), (''age'', ''25''), (''bio'', ''I'm an American'')] \<and>
   ''name'' \<notin> fst ` set (formData_spec defaultValues) \<and>
   filter (\<lambda>e. fst e = ''age'') (formData_spec defaultValues) = [(''age'', ''25'')]"
  using formData_omits_empty_fields [of defaultValues]
  by (simp add: entries_def defaultValues_def formData_spec_def omitted_def decimal_def
      int_of_safe digits.simps digit_char_def)

subsection \<open>Helper facts on \<open>onSubmit\<close>\<close>

lemma onSubmit_begin_eq:
  "onSubmit_begin d st =
     st\<lparr>serverError := None, submissionTime := None, isPending := True,
        inFlight := inFlight st + 1, sent := sent st @ [formData_spec d]\<rparr>"
  by (simp add: onSubmit_begin_def build_formData_spec)

lemma onSubmit_eq:
  "onSubmit now outcome d st =
     endTransition
       (case afterAwait now outcome (onSubmit_begin d st) of
          Inl err \<Rightarrow> catchError err (onSubmit_begin d st)
        | Inr st' \<Rightarrow> st')"
  by (simp add: onSubmit_def onSubmit_settle_def)

lemma setErrors_fvalues: "fvalues (setErrors es f) = fvalues f"
  by (induction es f rule: setErrors.induct) (simp_all add: setError_def)

lemma setErrors_other:
  "k \<notin> fst ` set es \<Longrightarrow> ferrors (setErrors es f) k = ferrors f k"
  by (induction es f rule: setErrors.induct) (auto simp: setError_def)

lemma setErrors_key:
  "distinct (map fst es) \<Longrightarrow> (k, m) \<in> set es \<Longrightarrow>
   ferrors (setErrors es f) k = Some \<lparr>etype = ''server'', emessage = m\<rparr>"
proof (induction es f rule: setErrors.induct)
  case (1 f)
  then show ?case by simp
next
  case (2 key v es f)
  show ?case
  proof (cases "(k, m) = (key, v)")
    case True
    with "2.prems" have "k \<notin> fst ` set es" by auto
    with True show ?thesis by (simp add: setErrors_other setError_def)
  next
    case False
    with "2.prems" have "(k, m) \<in> set es" "distinct (map fst es)" by auto
    then show ?thesis using "2.IH" by simp
  qed
qed

lemma catchError_frame:
  "sent (catchError err st) = sent st"
  "inFlight (catchError err st) = inFlight st"
  "isPending (catchError err st) = isPending st"
  "form (catchError err st) = form st"
  "submissionTime (catchError err st) = submissionTime st"
  by (simp_all add: catchError_def split: option.splits)

lemma handleResult_frame:
  assumes "handleResult now result st = Inr st'"
  shows "sent st' = sent st" "inFlight st' = inFlight st" "isPending st' = isPending st"
  using assms
  by (auto simp: handleResult_def split: action_result.splits option.splits if_splits)

lemma handleResult_messages:
  assumes "handleResult now result st = Inr st'"
    and "serverError st = None" and "submissionTime st = None"
  shows "serverError st' = None \<or> submissionTime st' = None"
  using assms
  by (auto simp: handleResult_def split: action_result.splits option.splits if_splits)

lemma afterAwait_frame:
  assumes "afterAwait now outcome st = Inr st'"
  shows "sent st' = sent st" "inFlight st' = inFlight st" "isPending st' = isPending st"
  using assms handleResult_frame [of now _ st st']
  by (auto simp: afterAwait_def split: action_outcome.splits)

lemma onSubmit_settle_frame:
  "sent (onSubmit_settle now outcome st) = sent st"
  "inFlight (onSubmit_settle now outcome st) = inFlight st - 1"
  "isPending (onSubmit_settle now outcome st) = (1 < inFlight st)"
  by (cases "afterAwait now outcome st";
      simp add: onSubmit_settle_def endTransition_def catchError_frame afterAwait_frame)+

subsection \<open>The reply of the server action\<close>

text \<open>
  Claim C1. When the server result is a failure carrying a Zod validation error, the
  form gets, for each key of the error's map of errors by field, a field error of type
  \<open>server\<close> with that key's message; the other field errors and the values stay, and no
  banner message is set. The keys of a JavaScript object are distinct.
\<close>

theorem validation_errors_per_field:
  assumes "distinct (map fst es)"
    and "st' = onSubmit now (Resolved (Failure (Shaped (ZodValidationError es)))) d st"
  shows "(\<forall>(k, m) \<in> set es.
            ferrors (form st') k = Some \<lparr>etype = ''server'', emessage = m\<rparr>) \<and>
         (\<forall>k. k \<notin> fst ` set es \<longrightarrow> ferrors (form st') k = ferrors (form st) k) \<and>
         fvalues (form st') = fvalues (form st) \<and>
         serverError st' = None \<and> errorBanner st' = None \<and> submissionTime st' = None"
proof -
  have st': "st' = endTransition ((onSubmit_begin d st)\<lparr>form := setErrors es (form st)\<rparr>)"
    by (simp add: assms(2) onSubmit_eq afterAwait_def handleResult_def onSubmit_begin_eq)
  have "ferrors (form st') k = Some \<lparr>etype = ''server'', emessage = m\<rparr>"
    if "(k, m) \<in> set es" for k m
    using setErrors_key [OF assms(1) that] by (simp add: st' endTransition_def)
  moreover have "ferrors (form st') k = ferrors (form st) k" if "k \<notin> fst ` set es" for k
    using setErrors_other [OF that] by (simp add: st' endTransition_def)
  moreover have "fvalues (form st') = fvalues (form st)"
    by (simp add: st' endTransition_def setErrors_fvalues)
  moreover have "serverError st' = None" "submissionTime st' = None"
    by (simp_all add: st' endTransition_def onSubmit_begin_eq)
  ultimately show ?thesis by (auto simp: errorBanner_def truthy_def)
qed

theorem validation_errors_per_field_witness:
  "distinct (map fst [(''name'', ''Name is required''), (''age'', ''Too young'')]) \<and>
   ferrors (form (onSubmit ''2024-05-01T10:00:00.000Z''
      (Resolved (Failure (Shaped (ZodValidationError
         [(''name'', ''Name is required''), (''age'', ''Too young'')]))))
      defaultValues initial)) ''age'' = Some \<lparr>etype = ''server'', emessage = ''Too young''\<rparr> \<and>
   serverError (onSubmit ''2024-05-01T10:00:00.000Z''
      (Resolved (Failure (Shaped (ZodValidationError
         [(''name'', ''Name is required''), (''age'', ''Too young'')]))))
      defaultValues initial) = None"
  using validation_errors_per_field
    [of "[(''name'', ''Name is required''), (''age'', ''Too young'')]" _
        "''2024-05-01T10:00:00.000Z''" defaultValues initial, OF _ refl]
  by simp

text \<open>
  Claim C2, amended. When the server result is a failure carrying a database, a
  permission or an unknown error, the error's message becomes the banner message and no
  field error is set. The banner is rendered when the message is not the empty string:
  the test \<open>serverError &&\<close> of line 142 takes the empty string for no message, so the
  claim as written fails for an error whose message is empty.
\<close>

theorem other_errors_banner:
  assumes "e \<in> {DatabaseError m, PermissionError m, UnknownError m}"
    and "st' = onSubmit now (Resolved (Failure (Shaped e))) d st"
  shows "serverError st' = Some m \<and>
         errorBanner st' = (if m = '''' then None else Some m) \<and>
         form st' = form st \<and> submissionTime st' = None \<and> successBanner st' = None"
  using assms(1)
  by (auto simp: assms(2) onSubmit_eq afterAwait_def handleResult_def onSubmit_begin_eq
      endTransition_def errorBanner_def successBanner_def truthy_def)

theorem other_errors_banner_witness:
  "PermissionError ''Not allowed'' \<in>
     {DatabaseError ''Not allowed'', PermissionError ''Not allowed'', UnknownError ''Not allowed''} \<and>
   errorBanner (onSubmit ''2024-05-01T10:00:00.000Z''
     (Resolved (Failure (Shaped (PermissionError ''Not allowed'')))) defaultValues initial)
     = Some ''Not allowed''"
  using other_errors_banner
    [of "PermissionError ''Not allowed''" "''Not allowed''" _ "''2024-05-01T10:00:00.000Z''"
        defaultValues initial, OF _ refl]
  by simp

theorem empty_message_no_banner:
  "errorBanner (onSubmit ''2024-05-01T10:00:00.000Z''
     (Resolved (Failure (Shaped (DatabaseError '''')))) defaultValues initial) \<noteq> Some ''''"
  by (simp add: onSubmit_eq afterAwait_def handleResult_def onSubmit_begin_eq endTransition_def
      errorBanner_def truthy_def)

text \<open>
  Claim C3, amended. When the call of the server action or the code around it, inside
  the \<open>try\<close>, throws a value other than \<open>null\<close> and \<open>undefined\<close>, the banner shows the
  fixed text \<open>An unexpected error occurred. Please try again.\<close>, a space and the text of
  the thrown value (line 64 appends \<open>error.toString()\<close>), and neither a field error nor a
  success timestamp is set. The claim as written fails twice: the banner is never the
  fixed text alone, and on a thrown \<open>null\<close> or \<open>undefined\<close> the \<open>catch\<close> block throws
  itself and no banner is shown. Before the \<open>await\<close> nothing throws, by
  \<open>build_formData_spec\<close>.
\<close>

theorem thrown_error_banner:
  assumes "afterAwait now outcome (onSubmit_begin d st) = Inl err"
    and "thrownText err = Some s"
    and "st' = onSubmit now outcome d st"
  shows "serverError st' = Some (genericMessage @ '' '' @ s) \<and>
         errorBanner st' = Some (genericMessage @ '' '' @ s) \<and>
         form st' = form st \<and> submissionTime st' = None \<and> successBanner st' = None"
proof -
  have "st' = endTransition (catchError err (onSubmit_begin d st))"
    by (simp add: assms(3) onSubmit_eq assms(1))
  then show ?thesis
    by (simp add: assms(2) catchError_def onSubmit_begin_eq endTransition_def
        errorBanner_def successBanner_def truthy_def genericMessage_def)
qed

theorem thrown_error_banner_witness:
  "serverError (onSubmit ''2024-05-01T10:00:00.000Z''
     (Rejected (Thrown ''TypeError: Failed to fetch'')) defaultValues initial)
   = Some ''An unexpected error occurred. Please try again. TypeError: Failed to fetch'' \<and>
   serverError (onSubmit ''2024-05-01T10:00:00.000Z'' (Resolved NoResult) defaultValues initial)
   = Some (''An unexpected error occurred. Please try again. '' @
       ''TypeError: Cannot read properties of undefined (reading 'success')'') \<and>
   serverError (onSubmit ''2024-05-01T10:00:00.000Z''
     (Resolved (Failure ValidationWithoutErrors)) defaultValues initial)
   = Some (''An unexpected error occurred. Please try again. '' @
       ''TypeError: Cannot convert undefined or null to object'')"
proof -
  have a: "afterAwait ''2024-05-01T10:00:00.000Z'' (Rejected (Thrown ''TypeError: Failed to fetch''))
      (onSubmit_begin defaultValues initial) = Inl (Thrown ''TypeError: Failed to fetch'')"
    by (simp add: afterAwait_def)
  have b: "afterAwait ''2024-05-01T10:00:00.000Z'' (Resolved NoResult)
      (onSubmit_begin defaultValues initial)
      = Inl (Thrown ''TypeError: Cannot read properties of undefined (reading 'success')'')"
    by (simp add: afterAwait_def handleResult_def)
  have c: "afterAwait ''2024-05-01T10:00:00.000Z'' (Resolved (Failure ValidationWithoutErrors))
      (onSubmit_begin defaultValues initial)
      = Inl (Thrown ''TypeError: Cannot convert undefined or null to object'')"
    by (simp add: afterAwait_def handleResult_def)
  show ?thesis
    using thrown_error_banner [OF a _ refl] thrown_error_banner [OF b _ refl]
      thrown_error_banner [OF c _ refl]
    by (simp add: genericMessage_def)
qed

theorem thrown_error_not_fixed_text:
  "serverError (onSubmit ''2024-05-01T10:00:00.000Z''
     (Rejected (Thrown ''TypeError: Failed to fetch'')) defaultValues initial)
   \<noteq> Some ''An unexpected error occurred. Please try again.'' \<and>
   errorBanner (onSubmit ''2024-05-01T10:00:00.000Z'' (Rejected ThrownNull) defaultValues
     initial) = None"
  by (simp add: onSubmit_eq afterAwait_def catchError_def onSubmit_begin_eq endTransition_def
      genericMessage_def errorBanner_def truthy_def)

text \<open>
  Claim C4. When the server result is the success marker, the form records the current
  time as the success timestamp, which the success banner shows (an ISO timestamp is
  never empty), resets the fields to their default values and sets no banner message.
\<close>

theorem success_timestamp_and_reset:
  assumes "st' = onSubmit now (Resolved Success) d st"
  shows "submissionTime st' = Some now \<and>
         (now \<noteq> '''' \<longrightarrow> successBanner st' = Some now) \<and>
         fvalues (form st') = defaultValues \<and> ferrors (form st') = Map.empty \<and>
         serverError st' = None \<and> errorBanner st' = None"
  by (simp add: assms onSubmit_eq afterAwait_def handleResult_def onSubmit_begin_eq
      endTransition_def reset_def errorBanner_def successBanner_def truthy_def)

theorem success_timestamp_and_reset_witness:
  "successBanner (onSubmit ''2024-05-01T10:00:00.000Z'' (Resolved Success)
      \<lparr>name = Str ''Ada'', email = Str ''ada@acme.com'', age = Num (safe 36), bio = Str ''''\<rparr>
      (initial\<lparr>serverError := Some ''Database is down''\<rparr>))
     = Some ''2024-05-01T10:00:00.000Z'' \<and>
   fvalues (form (onSubmit ''2024-05-01T10:00:00.000Z'' (Resolved Success)
      \<lparr>name = Str ''Ada'', email = Str ''ada@acme.com'', age = Num (safe 36), bio = Str ''''\<rparr>
      (initial\<lparr>serverError := Some ''Database is down''\<rparr>))) = defaultValues \<and>
   serverError (onSubmit ''2024-05-01T10:00:00.000Z'' (Resolved Success)
      \<lparr>name = Str ''Ada'', email = Str ''ada@acme.com'', age = Num (safe 36), bio = Str ''''\<rparr>
      (initial\<lparr>serverError := Some ''Database is down''\<rparr>)) = None"
  using success_timestamp_and_reset
    [of _ "''2024-05-01T10:00:00.000Z''"
        "\<lparr>name = Str ''Ada'', email = Str ''ada@acme.com'', age = Num (safe 36), bio = Str ''''\<rparr>"
        "initial\<lparr>serverError := Some ''Database is down''\<rparr>", OF refl]
  by simp

text \<open>
  Claim C10. When the server result is a failure whose error none of the four guards
  accepts, handling the result changes nothing: the state is the one the submission
  started with, its transition over. No field error is set, no banner message is shown
  and no success timestamp is recorded.
\<close>

theorem unrecognised_error_dropped:
  assumes "guards_accepting e = 0"
    and "st' = onSubmit now (Resolved (Failure e)) d st"
  shows "st' = endTransition (onSubmit_begin d st) \<and>
         form st' = form st \<and> serverError st' = None \<and> submissionTime st' = None \<and>
         errorBanner st' = None \<and> successBanner st' = None"
proof -
  from assms(1) have "\<not> isZodValidationError e" "\<not> isDatabaseError e"
    "\<not> isPermissionError e" "\<not> isUnknownError e"
    by (auto simp: guards_accepting_def split: if_splits)
  then have "st' = endTransition (onSubmit_begin d st)"
    by (simp add: assms(2) onSubmit_eq afterAwait_def handleResult_def)
  then show ?thesis
    by (simp add: onSubmit_begin_eq endTransition_def errorBanner_def successBanner_def truthy_def)
qed

theorem unrecognised_error_dropped_witness:
  "guards_accepting Unshaped = 0 \<and>
   form (onSubmit ''2024-05-01T10:00:00.000Z'' (Resolved (Failure Unshaped)) defaultValues
     (initial\<lparr>serverError := Some ''Database is down''\<rparr>)) = form initial \<and>
   serverError (onSubmit ''2024-05-01T10:00:00.000Z'' (Resolved (Failure Unshaped)) defaultValues
     (initial\<lparr>serverError := Some ''Database is down''\<rparr>)) = None"
proof -
  have g: "guards_accepting Unshaped = 0" by (simp add: guards_accepting_def)
  show ?thesis
    using g unrecognised_error_dropped [OF g refl, of "''2024-05-01T10:00:00.000Z''" defaultValues
        "initial\<lparr>serverError := Some ''Database is down''\<rparr>"]
    by (simp add: onSubmit_begin_eq endTransition_def)
qed






text \<open>
  Claim C9. Every submission starts by clearing the banner message and the success
  timestamp. After a completed submission at most one of the two is set, and neither
  depends on what they were before the submission: no earlier message survives.
\<close>

theorem messages_cleared_at_start:
  "serverError (onSubmit_begin d st) = None \<and> submissionTime (onSubmit_begin d st) = None \<and>
   (serverError (onSubmit now outcome d st) = None \<or>
    submissionTime (onSubmit now outcome d st) = None) \<and>
   serverError (onSubmit now outcome d (st\<lparr>serverError := x, submissionTime := y\<rparr>))
     = serverError (onSubmit now outcome d st) \<and>
   submissionTime (onSubmit now outcome d (st\<lparr>serverError := x, submissionTime := y\<rparr>))
     = submissionTime (onSubmit now outcome d st)"
proof (intro conjI)
  show "serverError (onSubmit_begin d st) = None" "submissionTime (onSubmit_begin d st) = None"
    by (simp_all add: onSubmit_begin_eq)
  show "serverError (onSubmit now outcome d st) = None \<or>
        submissionTime (onSubmit now outcome d st) = None"
  proof (cases "afterAwait now outcome (onSubmit_begin d st)")
    case (Inl err)
    then show ?thesis
      by (simp add: onSubmit_eq endTransition_def catchError_frame onSubmit_begin_eq)
  next
    case (Inr st')
    then have "serverError st' = None \<or> submissionTime st' = None"
      by (cases outcome)
        (auto simp: afterAwait_def onSubmit_begin_eq dest!: handleResult_messages)
    with Inr show ?thesis by (simp add: onSubmit_eq endTransition_def)
  qed
  have same: "onSubmit_begin d (st\<lparr>serverError := x, submissionTime := y\<rparr>) = onSubmit_begin d st"
    by (simp add: onSubmit_begin_eq)
  show "serverError (onSubmit now outcome d (st\<lparr>serverError := x, submissionTime := y\<rparr>))
     = serverError (onSubmit now outcome d st)"
    "submissionTime (onSubmit now outcome d (st\<lparr>serverError := x, submissionTime := y\<rparr>))
     = submissionTime (onSubmit now outcome d st)"
    by (simp_all add: onSubmit_def same)
qed

subsection \<open>Client validation and the pending flag\<close>

lemma handleSubmit_blocked:
  assumes "validate userSchema st = (errs, d)" and "errs k = Some e" and "k \<noteq> ''root''"
  shows "handleSubmit userSchema st = st\<lparr>form := (form st)\<lparr>ferrors := errs(''root'' := None)\<rparr>\<rparr>"
proof -
  from assms(2,3) have "(errs(''root'' := None)) k \<noteq> Map.empty k" by simp
  then have "errs(''root'' := None) \<noteq> Map.empty" by metis
  with assms(1) show ?thesis by (simp add: handleSubmit_def)
qed

lemma handleSubmit_calls:
  assumes "validate userSchema st = (errs, d)" and "dom errs \<subseteq> {''root''}"
  shows "handleSubmit userSchema st =
           onSubmit_begin d (st\<lparr>form := (form st)\<lparr>ferrors := Map.empty\<rparr>\<rparr>)"
proof -
  have "(errs(''root'' := None)) k = None" for k
    using assms(2) by (cases "k = ''root''") auto
  then have "errs(''root'' := None) = Map.empty" by (simp add: fun_eq_iff)
  with assms(1) show ?thesis by (simp add: handleSubmit_def)
qed


lemma validate_on:
  "clientValidation st \<Longrightarrow>
   validate userSchema st =
     (case userSchema (fvalues (form st)) of
        Inl errs \<Rightarrow> (map_of errs, noValues)
      | Inr d \<Rightarrow> (Map.empty, d))"
  by (simp add: validate_def resolver_def)





lemma handleSubmit_pending:
  "inFlight (handleSubmit userSchema st) = inFlight st \<and>
     isPending (handleSubmit userSchema st) = isPending st \<or>
   inFlight (handleSubmit userSchema st) = inFlight st + 1 \<and>
     isPending (handleSubmit userSchema st)"
  by (cases "validate userSchema st") (simp add: handleSubmit_def onSubmit_begin_eq)

lemma reachable_pending:
  "reachable userSchema st \<Longrightarrow> inFlight st \<le> 1 \<and> (isPending st \<longleftrightarrow> inFlight st = 1)"
proof (induction rule: reachable.induct)
  case reachable_initial
  show ?case by (simp add: initial_def)
next
  case (reachable_step st ev)
  show ?case
  proof (cases ev)
    case (SetClientValidation b)
    with reachable_step.IH show ?thesis by simp
  next
    case (Change f)
    with reachable_step.IH show ?thesis by simp
  next
    case Submit
    show ?thesis
    proof (cases "submitDisabled st")
      case True
      with Submit reachable_step.IH show ?thesis by simp
    next
      case False
      with reachable_step.IH have "inFlight st = 0" "\<not> isPending st"
        by (auto simp: submitDisabled_def)
      with Submit False handleSubmit_pending [of userSchema st] show ?thesis by auto
    qed
  next
    case (Settle now outcome)
    with reachable_step.IH show ?thesis by (auto simp: onSubmit_settle_frame)
  qed
qed

lemma reachable_run: "reachable userSchema st \<Longrightarrow> reachable userSchema (run userSchema evs st)"
  by (induction evs arbitrary: st) (auto intro: reachable.reachable_step)

text \<open>
  Claim C6. In every reachable state at most one call of the server action is in
  flight. While one is, the pending flag is up, the submit button is disabled and asking
  for a submit changes nothing; the button is enabled again once the call has settled.
  The pending flag is the one of \<open>useTransition\<close>, up from \<open>startTransition\<close> until the
  asynchronous callback has ended.
\<close>

theorem one_submission_in_flight:
  assumes "reachable userSchema st"
  shows "inFlight st \<le> 1 \<and>
         (inFlight st = 1 \<longrightarrow>
            isPending st \<and> submitDisabled st \<and> step userSchema Submit st = st \<and>
            \<not> submitDisabled (step userSchema (Settle now outcome) st)) \<and>
         (inFlight st = 0 \<longrightarrow> \<not> isPending st \<and> \<not> submitDisabled st)"
  using reachable_pending [OF assms]
  by (auto simp: submitDisabled_def onSubmit_settle_frame)

theorem one_submission_in_flight_witness:
  "reachable nameRequired (run nameRequired [SetClientValidation True, Submit,
       Change \<lparr>fvalues = defaultValues\<lparr>name := Str ''Ada''\<rparr>, ferrors = Map.empty\<rparr>, Submit]
     initial) \<and>
   inFlight (run nameRequired [SetClientValidation True, Submit,
       Change \<lparr>fvalues = defaultValues\<lparr>name := Str ''Ada''\<rparr>, ferrors = Map.empty\<rparr>, Submit]
     initial) = 1 \<and>
   submitDisabled (run nameRequired [SetClientValidation True, Submit,
       Change \<lparr>fvalues = defaultValues\<lparr>name := Str ''Ada''\<rparr>, ferrors = Map.empty\<rparr>, Submit]
     initial)"
proof -
  have r: "reachable nameRequired (run nameRequired [SetClientValidation True, Submit,
       Change \<lparr>fvalues = defaultValues\<lparr>name := Str ''Ada''\<rparr>, ferrors = Map.empty\<rparr>, Submit]
     initial)"
    by (rule reachable_run [OF reachable_initial])
  have blocked: "handleSubmit nameRequired (initial\<lparr>clientValidation := True\<rparr>)
      = (initial\<lparr>clientValidation := True\<rparr>)\<lparr>form := (form (initial\<lparr>clientValidation := True\<rparr>))
          \<lparr>ferrors := (map_of [(''name'', \<lparr>etype = ''too_small'', emessage = ''Name is required''\<rparr>)])
              (''root'' := None)\<rparr>\<rparr>"
    by (rule handleSubmit_blocked [where k = "''name''"])
      (simp_all add: validate_on initial_def nameRequired_def defaultValues_def omitted_def)
  have n: "inFlight (run nameRequired [SetClientValidation True, Submit,
       Change \<lparr>fvalues = defaultValues\<lparr>name := Str ''Ada''\<rparr>, ferrors = Map.empty\<rparr>, Submit]
     initial) = 1"
    using blocked
    by (simp add: initial_def submitDisabled_def nameRequired_def defaultValues_def omitted_def
        handleSubmit_calls [where errs = Map.empty] validate_on onSubmit_begin_eq)
  show ?thesis
    using r n one_submission_in_flight [OF r] by simp
qed

end
